theory Spec2Isabelle
  imports Main "HOL-Library.Sublist"
begin

section \<open>Python strings and integers\<close>

text \<open>
  A Python \<open>str\<close> is modelled as a \<open>string\<close> of ASCII characters. \<open>str.lower\<close> maps the
  letters A to Z to a to z and leaves every other character alone; \<open>s.replace(" ", "")\<close>
  deletes every space character, wherever it stands; \<open>a in b\<close> on strings is the
  contiguous-substring test, which is \<open>sublist a b\<close>.
\<close>

definition lower_char :: "char \<Rightarrow> char" where
  "lower_char c =
     (let n = (of_char c :: nat) in if 65 \<le> n \<and> n \<le> 90 then char_of (n + 32) else c)"

definition lower :: "string \<Rightarrow> string" where
  "lower s = map lower_char s"

definition remove_spaces :: "string \<Rightarrow> string" where
  "remove_spaces s = filter (\<lambda>c. c \<noteq> CHR '' '') s"

text \<open>\<open>sep.join(parts)\<close>.\<close>

fun join :: "string \<Rightarrow> string list \<Rightarrow> string" where
  "join sep [] = []"
| "join sep [p] = p"
| "join sep (p # q # ps) = p @ sep @ join sep (q # ps)"

text \<open>\<open>str(n)\<close> for an integer: decimal digits, most significant first, a minus sign
  in front of a negative number.\<close>

definition digit_char :: "nat \<Rightarrow> char" where
  "digit_char d = char_of (48 + d)"

fun str_nat :: "nat \<Rightarrow> string" where
  "str_nat n = (if n < 10 then [digit_char n] else str_nat (n div 10) @ [digit_char (n mod 10)])"

declare str_nat.simps [simp del]

definition str_int :: "int \<Rightarrow> string" where
  "str_int i = (if i < 0 then CHR ''-'' # str_nat (nat (- i)) else str_nat (nat i))"

text \<open>
  The catalog prices are decimal literals with two fractional digits, and \<open>:.2f\<close> of the
  binary64 value nearest such a literal prints the literal back. A price is therefore held
  as its number of cents, and \<open>fmt_2f\<close> is \<open>f"{price:.2f}"\<close> on it.
\<close>

definition fmt_2f :: "nat \<Rightarrow> string" where
  "fmt_2f cents =
     str_nat (cents div 100) @ ''.'' @ [digit_char (cents mod 100 div 10), digit_char (cents mod 10)]"

section \<open>The medicine catalog\<close>

record medicine =
  name :: string
  dosages :: "string list"
  price :: nat
  category :: string

text \<open>\<open>MEDICINES\<close> is a dict literal; iteration follows insertion order, so it is an
  association list in the order of the source.\<close>

definition MEDICINES :: "(string \<times> medicine) list" where
  "MEDICINES =
    [(''lisinopril'', \<lparr>name = ''Lisinopril'', dosages = [''5mg'', ''10mg'', ''20mg''], price = 1599, category = ''ACE Inhibitor''\<rparr>),
     (''metformin'', \<lparr>name = ''Metformin'', dosages = [''500mg'', ''850mg'', ''1000mg''], price = 1250, category = ''Antidiabetic''\<rparr>),
     (''atorvastatin'', \<lparr>name = ''Atorvastatin'', dosages = [''10mg'', ''20mg'', ''40mg''], price = 1875, category = ''Statin''\<rparr>),
     (''omeprazole'', \<lparr>name = ''Omeprazole'', dosages = [''20mg'', ''40mg''], price = 999, category = ''PPI''\<rparr>),
     (''amlodipine'', \<lparr>name = ''Amlodipine'', dosages = [''5mg'', ''10mg''], price = 1425, category = ''Calcium Channel Blocker''\<rparr>),
     (''ibuprofen'', \<lparr>name = ''Ibuprofen'', dosages = [''200mg'', ''400mg'', ''600mg''], price = 850, category = ''NSAID''\<rparr>),
     (''acetaminophen'', \<lparr>name = ''Acetaminophen'', dosages = [''325mg'', ''500mg'', ''650mg''], price = 799, category = ''Analgesic''\<rparr>),
     (''aspirin'', \<lparr>name = ''Aspirin'', dosages = [''81mg'', ''325mg''], price = 699, category = ''NSAID/Antiplatelet''\<rparr>),
     (''losartan'', \<lparr>name = ''Losartan'', dosages = [''25mg'', ''50mg'', ''100mg''], price = 1650, category = ''ARB''\<rparr>),
     (''gabapentin'', \<lparr>name = ''Gabapentin'', dosages = [''100mg'', ''300mg'', ''600mg''], price = 2200, category = ''Anticonvulsant''\<rparr>)]"

section \<open>Name resolution\<close>

text \<open>
  \<open>check_availability\<close> and \<open>place_order\<close> open with the same lines:
  \<^verbatim>\<open>
    med_key = medicine_name.lower().replace(" ", "")
    found_med = None
    for key, med in MEDICINES.items():
        if med_key in key or med_key in med["name"].lower().replace(" ", ""):
            found_med = med
            break
  \<close>
\<close>

definition med_key :: "string \<Rightarrow> string" where
  "med_key medicine_name = remove_spaces (lower medicine_name)"

definition key_matches :: "string \<Rightarrow> string \<times> medicine \<Rightarrow> bool" where
  "key_matches k entry =
     (sublist k (fst entry) \<or> sublist k (remove_spaces (lower (name (snd entry)))))"

fun scan_catalog :: "string \<Rightarrow> (string \<times> medicine) list \<Rightarrow> medicine option" where
  "scan_catalog k [] = None"
| "scan_catalog k (entry # rest) =
     (if key_matches k entry then Some (snd entry) else scan_catalog k rest)"

definition found_med :: "string \<Rightarrow> medicine option" where
  "found_med medicine_name = scan_catalog (med_key medicine_name) MEDICINES"

text \<open>
  The resolution as the specification words it, for comparison: an entry matches when
  the normalized input is a substring of the lookup key or the lookup key is a substring
  of the normalized input.
\<close>

definition spec_key_matches :: "string \<Rightarrow> string \<times> medicine \<Rightarrow> bool" where
  "spec_key_matches k entry = (sublist k (fst entry) \<or> sublist (fst entry) k)"

fun spec_scan_catalog :: "string \<Rightarrow> (string \<times> medicine) list \<Rightarrow> medicine option" where
  "spec_scan_catalog k [] = None"
| "spec_scan_catalog k (entry # rest) =
     (if spec_key_matches k entry then Some (snd entry) else spec_scan_catalog k rest)"

definition spec_resolve :: "string \<Rightarrow> medicine option" where
  "spec_resolve medicine_name = spec_scan_catalog (med_key medicine_name) MEDICINES"

section \<open>Tool results\<close>

text \<open>
  Every handler returns \<open>{"content": [{"type": "text", "text": text}]}\<close>, with the extra
  key \<open>"isError": True\<close> on its failure returns. The record holds the text and whether that
  key is present.
\<close>

record tool_result =
  content_text :: string
  isError :: bool

definition ok_result :: "string \<Rightarrow> tool_result" where
  "ok_result t = \<lparr>content_text = t, isError = False\<rparr>"

definition error_result :: "string \<Rightarrow> tool_result" where
  "error_result t = \<lparr>content_text = t, isError = True\<rparr>"

definition quote :: string where
  "quote = [CHR 0x27]"

section \<open>search_medicines\<close>

definition category_aliases :: "(string \<times> string list) list" where
  "category_aliases =
    [(''blood pressure'', [''ace inhibitor'', ''arb'', ''calcium channel blocker'']),
     (''diabetes'', [''antidiabetic'']),
     (''cholesterol'', [''statin'']),
     (''pain'', [''nsaid'', ''analgesic''])]"

text \<open>The loop \<open>for alias, categories in category_aliases.items()\<close> that extends
  \<open>search_terms\<close>.\<close>

fun extend_terms :: "string \<Rightarrow> (string \<times> string list) list \<Rightarrow> string list \<Rightarrow> string list" where
  "extend_terms query_lower [] search_terms = search_terms"
| "extend_terms query_lower ((alias, categories) # rest) search_terms =
     extend_terms query_lower rest
       (if sublist alias query_lower then search_terms @ categories else search_terms)"

definition search_terms :: "string \<Rightarrow> string list" where
  "search_terms query = extend_terms (lower query) category_aliases [lower query]"

text \<open>
  The inner loop \<open>for term in search_terms\<close> on one catalog entry: the first term that
  matches appends the record unless an equal record is already among the results, and
  breaks. A result is \<open>{"data": med, "display": {...}}\<close> with the display fields copied
  from \<open>med\<close>, so the results are kept as the list of the records.
\<close>

fun try_terms :: "string list \<Rightarrow> string \<times> medicine \<Rightarrow> medicine list \<Rightarrow> medicine list" where
  "try_terms [] entry results = results"
| "try_terms (term # terms) entry results =
     (if sublist term (fst entry) \<or> sublist term (lower (category (snd entry)))
          \<or> sublist term (lower (name (snd entry)))
      then (if snd entry \<notin> set results then results @ [snd entry] else results)
      else try_terms terms entry results)"

fun search_loop :: "string list \<Rightarrow> (string \<times> medicine) list \<Rightarrow> medicine list \<Rightarrow> medicine list" where
  "search_loop terms [] results = results"
| "search_loop terms (entry # rest) results = search_loop terms rest (try_terms terms entry results)"

definition search_matches :: "string \<Rightarrow> medicine list" where
  "search_matches query = search_loop (search_terms query) MEDICINES []"

fun render_matches :: "nat \<Rightarrow> medicine list \<Rightarrow> string" where
  "render_matches i [] = []"
| "render_matches i (d # rest) =
     str_nat i @ ''. **'' @ name d @ ''** ('' @ category d @ '')\<newline>''
     @ ''   Dosages: '' @ join '', '' (dosages d) @ ''\<newline>''
     @ ''   Price: $'' @ fmt_2f (price d) @ '' per unit\<newline>\<newline>''
     @ render_matches (Suc i) rest"

definition search_medicines :: "string \<Rightarrow> tool_result" where
  "search_medicines query =
     (let results = search_matches query in
      if results \<noteq> []
      then ok_result (''Found '' @ str_nat (length results) @ '' medicine(s) matching '' @ quote
                       @ query @ quote @ '':\<newline>\<newline>'' @ render_matches 1 results)
      else ok_result (''No medicines found matching '' @ quote @ query @ quote @ ''.''))"

section \<open>check_availability\<close>

text \<open>\<open>dosage\<close> defaults to \<open>None\<close>; \<open>if dosage\<close> is false for \<open>None\<close> and for the empty string.\<close>

definition check_availability :: "string \<Rightarrow> string option \<Rightarrow> tool_result" where
  "check_availability medicine_name dosage_arg =
     (case found_med medicine_name of
        Some med \<Rightarrow>
          (case dosage_arg of
             None \<Rightarrow>
               ok_result (''**'' @ name med @ ''** is IN STOCK\<newline>''
                 @ ''Category: '' @ category med @ ''\<newline>Dosages: '' @ join '', '' (dosages med)
                 @ ''\<newline>Price: $'' @ fmt_2f (price med) @ '' per unit'')
           | Some d \<Rightarrow>
               if d \<noteq> [] \<and> d \<notin> set (dosages med)
               then ok_result (''**'' @ name med @ ''** is available but NOT in '' @ d @ '' dosage.\<newline>''
                      @ ''Available dosages: '' @ join '', '' (dosages med)
                      @ ''\<newline>Price: $'' @ fmt_2f (price med) @ '' per unit'')
               else ok_result (''**'' @ name med @ ''** is IN STOCK\<newline>''
                      @ ''Category: '' @ category med @ ''\<newline>Dosages: '' @ join '', '' (dosages med)
                      @ ''\<newline>Price: $'' @ fmt_2f (price med) @ '' per unit''
                      @ (if d \<noteq> [] then ''\<newline>'' @ d @ '' dosage is available for immediate order.''
                         else [])))
      | None \<Rightarrow>
          ok_result (''**'' @ medicine_name @ ''** is NOT AVAILABLE in our pharmacy inventory.''))"

section \<open>The order ledger and place_order\<close>

text \<open>
  An order as \<open>place_order\<close> builds it. Two of its keys are left out of the record:
  \<open>total_price\<close>, the binary64 product \<open>price * quantity\<close>, and \<open>created_at\<close>, the wall
  clock. Nothing reads them back but the confirmation text of the same call, where the
  \<open>:.2f\<close> rendering of the product is the parameter \<open>total_2f\<close> of \<open>place_order\<close>.
\<close>

record order =
  order_id :: string
  medicine :: string
  dosage :: string
  quantity :: int
  patient_id :: string
  unit_price :: nat
  status :: string

datatype py_error = OverflowError | ValueError | IndexError

text \<open>
  \<open>found_med["price"] * quantity\<close> multiplies a float by an int, which first converts the
  int to binary64. The conversion raises \<open>OverflowError\<close> when the int rounds beyond the
  largest finite binary64 value, that is from \<open>2^1024 - 2^970\<close> on in magnitude; the
  multiplication itself never raises (it may give \<open>inf\<close>).
\<close>

definition float_of_int_ok :: "int \<Rightarrow> bool" where
  "float_of_int_ok q = (\<bar>q\<bar> < 2 ^ 1024 - 2 ^ 970)"

definition new_order :: "medicine \<Rightarrow> string \<Rightarrow> int \<Rightarrow> string \<Rightarrow> order list \<Rightarrow> order" where
  "new_order med dose qty pid orders =
     \<lparr>order_id = ''ORD-'' @ str_nat (length orders + 1001),
      medicine = name med,
      dosage = dose,
      quantity = qty,
      patient_id = pid,
      unit_price = price med,
      status = ''PENDING_PHYSICIAN_APPROVAL''\<rparr>"

definition place_order ::
  "(nat \<Rightarrow> int \<Rightarrow> string) \<Rightarrow> string \<Rightarrow> string \<Rightarrow> int \<Rightarrow> string \<Rightarrow> order list
     \<Rightarrow> py_error + (tool_result \<times> order list)" where
  "place_order total_2f medicine_name dose qty pid orders =
     (case found_med medicine_name of
        None \<Rightarrow> Inr (error_result (''Order Failed: '' @ medicine_name @ '' not found.''), orders)
      | Some med \<Rightarrow>
          if dose \<notin> set (dosages med)
          then Inr (error_result (''Order Failed: '' @ dose @ '' not valid for '' @ name med @ ''.''), orders)
          else if \<not> float_of_int_ok qty then Inl OverflowError
          else
            (let ord = new_order med dose qty pid orders in
             Inr (ok_result (''ORDER PLACED\<newline>Order ID: '' @ order_id ord
                    @ ''\<newline>Medicine: '' @ medicine ord @ '' '' @ dosage ord @ ''\<newline>''
                    @ ''Quantity: '' @ str_int (quantity ord) @ '' units\<newline>Total: $''
                    @ total_2f (price med) qty @ ''\<newline>Status: '' @ status ord),
                  orders @ [ord])))"

section \<open>get_order_status\<close>

fun get_order_status :: "string \<Rightarrow> order list \<Rightarrow> tool_result" where
  "get_order_status oid [] = error_result (''Order '' @ oid @ '' not found.'')"
| "get_order_status oid (ord # rest) =
     (if order_id ord = oid
      then ok_result (''Order '' @ order_id ord @ '': '' @ medicine ord @ '' '' @ dosage ord
             @ '' x'' @ str_int (quantity ord) @ '' - '' @ status ord)
      else get_order_status oid rest)"

section \<open>check_drug_interactions\<close>

record interaction =
  drugs :: string
  severity :: string
  description :: string

text \<open>The dict \<open>interactions\<close>, in the order of the source: \<open>((drug1, drug2), (severity,
  description))\<close>.\<close>

definition interactions :: "((string \<times> string) \<times> (string \<times> string)) list" where
  "interactions =
    [((''lisinopril'', ''ibuprofen''), (''MODERATE'', ''NSAIDs may reduce the antihypertensive effect of ACE inhibitors and increase risk of kidney problems'')),
     ((''lisinopril'', ''aspirin''), (''MINOR'', ''Low-dose aspirin is generally safe with ACE inhibitors'')),
     ((''metformin'', ''ibuprofen''), (''MINOR'', ''NSAIDs may slightly increase risk of lactic acidosis with metformin'')),
     ((''atorvastatin'', ''amlodipine''), (''SAFE'', ''No significant interaction - commonly prescribed together'')),
     ((''lisinopril'', ''metformin''), (''SAFE'', ''Commonly prescribed together for diabetic patients with hypertension'')),
     ((''lisinopril'', ''losartan''), (''SEVERE'', ''Do NOT combine ACE inhibitors with ARBs - increased risk of hyperkalemia and kidney damage'')),
     ((''ibuprofen'', ''aspirin''), (''MODERATE'', ''NSAIDs may reduce cardioprotective effect of low-dose aspirin'')),
     ((''gabapentin'', ''opioids''), (''SEVERE'', ''Increased risk of respiratory depression - use with extreme caution''))]"

text \<open>\<open>xs.index(x)\<close>: the first position of \<open>x\<close>, \<open>ValueError\<close> when there is none.\<close>

fun index_of :: "'a list \<Rightarrow> 'a \<Rightarrow> nat option" where
  "index_of [] x = None"
| "index_of (y # ys) x = (if y = x then Some 0 else map_option Suc (index_of ys x))"

text \<open>\<open>medicines[medicines_lower.index(med)]\<close>.\<close>

definition original_of :: "string list \<Rightarrow> string list \<Rightarrow> string \<Rightarrow> py_error + string" where
  "original_of medicines medicines_lower med =
     (case index_of medicines_lower med of
        None \<Rightarrow> Inl ValueError
      | Some k \<Rightarrow> if k < length medicines then Inr (medicines ! k) else Inl IndexError)"

text \<open>The f-string of the key \<open>"drugs"\<close>; its two lookups run left to right.\<close>

definition pair_label :: "string list \<Rightarrow> string list \<Rightarrow> string \<Rightarrow> string \<Rightarrow> py_error + string" where
  "pair_label medicines medicines_lower med1 med2 =
     (case original_of medicines medicines_lower med1 of
        Inl e \<Rightarrow> Inl e
      | Inr a \<Rightarrow>
          (case original_of medicines medicines_lower med2 of
             Inl e \<Rightarrow> Inl e
           | Inr b \<Rightarrow> Inr (a @ '' + '' @ b)))"

text \<open>\<open>(x in y or y in x)\<close>.\<close>

definition either_in :: "string \<Rightarrow> string \<Rightarrow> bool" where
  "either_in x y = (sublist x y \<or> sublist y x)"

text \<open>The innermost loop, over the rules, for one pair \<open>(med1, med2)\<close>. Both branches of
  the \<open>if\<close>/\<open>elif\<close> append the same entry.\<close>

fun scan_rules ::
  "string list \<Rightarrow> string list \<Rightarrow> string \<Rightarrow> string \<Rightarrow> ((string \<times> string) \<times> (string \<times> string)) list
     \<Rightarrow> interaction list \<Rightarrow> py_error + interaction list" where
  "scan_rules ms ml med1 med2 [] found = Inr found"
| "scan_rules ms ml med1 med2 (((drug1, drug2), (sev, descr)) # rules) found =
     (if either_in drug1 med1 \<and> either_in drug2 med2
      then (case pair_label ms ml med1 med2 of
              Inl e \<Rightarrow> Inl e
            | Inr l \<Rightarrow> scan_rules ms ml med1 med2 rules
                        (found @ [\<lparr>drugs = l, severity = sev, description = descr\<rparr>]))
      else if either_in drug2 med1 \<and> either_in drug1 med2
      then (case pair_label ms ml med1 med2 of
              Inl e \<Rightarrow> Inl e
            | Inr l \<Rightarrow> scan_rules ms ml med1 med2 rules
                        (found @ [\<lparr>drugs = l, severity = sev, description = descr\<rparr>]))
      else scan_rules ms ml med1 med2 rules found)"

text \<open>\<open>for med2 in medicines_lower[i+1:]\<close>.\<close>

fun scan_seconds ::
  "string list \<Rightarrow> string list \<Rightarrow> string \<Rightarrow> string list \<Rightarrow> interaction list
     \<Rightarrow> py_error + interaction list" where
  "scan_seconds ms ml med1 [] found = Inr found"
| "scan_seconds ms ml med1 (med2 # rest) found =
     (case scan_rules ms ml med1 med2 interactions found of
        Inl e \<Rightarrow> Inl e
      | Inr found' \<Rightarrow> scan_seconds ms ml med1 rest found')"

text \<open>\<open>for i, med1 in enumerate(medicines_lower)\<close>; the fourth argument is
  \<open>medicines_lower[i:]\<close>.\<close>

fun scan_firsts ::
  "string list \<Rightarrow> string list \<Rightarrow> string list \<Rightarrow> interaction list \<Rightarrow> py_error + interaction list" where
  "scan_firsts ms ml [] found = Inr found"
| "scan_firsts ms ml (med1 # rest) found =
     (case scan_seconds ms ml med1 rest found of
        Inl e \<Rightarrow> Inl e
      | Inr found' \<Rightarrow> scan_firsts ms ml rest found')"

definition found_interactions :: "string list \<Rightarrow> py_error + interaction list" where
  "found_interactions medicines =
     (let medicines_lower = map med_key medicines
      in scan_firsts medicines medicines_lower medicines_lower [])"

text \<open>\<open>severity_order.get(x["severity"], 4)\<close>.\<close>

definition severity_order :: "string \<Rightarrow> nat" where
  "severity_order s =
     (if s = ''SEVERE'' then 0 else if s = ''MODERATE'' then 1 else if s = ''MINOR'' then 2
      else if s = ''SAFE'' then 3 else 4)"

text \<open>\<open>found_interactions.sort(key=...)\<close>: Python's list sort is stable, as \<open>sort_key\<close> is.\<close>

definition sort_by_severity :: "interaction list \<Rightarrow> interaction list" where
  "sort_by_severity found = sort_key (\<lambda>x. severity_order (severity x)) found"

text \<open>The matches as the report lists them: sorted when there are any.\<close>

definition reported_interactions :: "string list \<Rightarrow> py_error + interaction list" where
  "reported_interactions medicines =
     (case found_interactions medicines of
        Inl e \<Rightarrow> Inl e
      | Inr found \<Rightarrow> Inr (if found \<noteq> [] then sort_by_severity found else found))"

fun render_interactions :: "interaction list \<Rightarrow> string" where
  "render_interactions [] = []"
| "render_interactions (x # rest) =
     ''['' @ severity x @ ''] '' @ drugs x @ '': '' @ description x @ ''\<newline>\<newline>''
     @ render_interactions rest"

definition check_drug_interactions :: "string list \<Rightarrow> py_error + tool_result" where
  "check_drug_interactions medicines =
     (case reported_interactions medicines of
        Inl e \<Rightarrow> Inl e
      | Inr found \<Rightarrow>
          Inr (if found \<noteq> []
               then ok_result (''Drug Interaction Check for: '' @ join '', '' medicines
                      @ ''\<newline>\<newline>'' @ render_interactions found)
               else ok_result (''No known interactions found between: '' @ join '', '' medicines)))"

section \<open>handle_tool_call\<close>

text \<open>
  The \<open>arguments\<close> dict of a call, read with \<open>arguments.get(key, default)\<close>: a field is
  \<open>None\<close> when the key is absent. The values have the types the tool schemas declare.
\<close>

record arguments =
  arg_query :: "string option"
  arg_medicine_name :: "string option"
  arg_dosage :: "string option"
  arg_quantity :: "int option"
  arg_patient_id :: "string option"
  arg_medicines :: "string list option"
  arg_order_id :: "string option"

definition no_arguments :: arguments where
  "no_arguments =
     \<lparr>arg_query = None, arg_medicine_name = None, arg_dosage = None, arg_quantity = None,
      arg_patient_id = None, arg_medicines = None, arg_order_id = None\<rparr>"

definition get_or :: "'a option \<Rightarrow> 'a \<Rightarrow> 'a" where
  "get_or v d = (case v of None \<Rightarrow> d | Some x \<Rightarrow> x)"

text \<open>The handlers other than \<open>place_order\<close> do not touch \<open>orders\<close> (\<open>get_order_status\<close>
  reads it), so the ledger they return is the one they were given.\<close>

definition handle_tool_call ::
  "(nat \<Rightarrow> int \<Rightarrow> string) \<Rightarrow> string \<Rightarrow> arguments \<Rightarrow> order list
     \<Rightarrow> py_error + (tool_result \<times> order list)" where
  "handle_tool_call total_2f tool args orders =
     (if tool = ''search_medicines''
      then Inr (search_medicines (get_or (arg_query args) []), orders)
      else if tool = ''check_availability''
      then Inr (check_availability (get_or (arg_medicine_name args) []) (arg_dosage args), orders)
      else if tool = ''place_order''
      then place_order total_2f (get_or (arg_medicine_name args) []) (get_or (arg_dosage args) [])
             (get_or (arg_quantity args) 30) (get_or (arg_patient_id args) ''UNKNOWN'') orders
      else if tool = ''check_drug_interactions''
      then (case check_drug_interactions (get_or (arg_medicines args) []) of
              Inl e \<Rightarrow> Inl e
            | Inr r \<Rightarrow> Inr (r, orders))
      else if tool = ''get_order_status''
      then Inr (get_order_status (get_or (arg_order_id args) []) orders, orders)
      else Inr (error_result (''Unknown tool: '' @ tool), orders))"

section \<open>The protocol dispatcher\<close>

datatype schema_type = SString | SInteger | SArrayOfString

record tool_property =
  prop_key :: string
  prop_type :: schema_type
  prop_description :: string

text \<open>A tool descriptor; its \<open>inputSchema\<close> is always of type \<open>object\<close> and is held as the
  list of its properties and its \<open>required\<close> list.\<close>

record tool_descriptor =
  tool_name :: string
  tool_description :: string
  tool_properties :: "tool_property list"
  tool_required :: "string list"

definition TOOLS :: "tool_descriptor list" where
  "TOOLS =
    [\<lparr>tool_name = ''search_medicines'',
      tool_description = ''Search for available medicines by name or category. Returns matching medicines with dosages and pricing.'',
      tool_properties =
        [\<lparr>prop_key = ''query'', prop_type = SString,
          prop_description = ''Medicine name or category to search for (e.g., '' @ quote @ ''metformin'' @ quote @ '', '' @ quote @ ''NSAID'' @ quote @ '', '' @ quote @ ''blood pressure'' @ quote @ '')''\<rparr>],
      tool_required = [''query'']\<rparr>,
     \<lparr>tool_name = ''check_availability'',
      tool_description = ''Check if a specific medicine is available in stock and get detailed pricing information.'',
      tool_properties =
        [\<lparr>prop_key = ''medicine_name'', prop_type = SString,
          prop_description = ''Name of the medicine to check (e.g., '' @ quote @ ''lisinopril'' @ quote @ '', '' @ quote @ ''metformin'' @ quote @ '')''\<rparr>,
         \<lparr>prop_key = ''dosage'', prop_type = SString,
          prop_description = ''Optional: Specific dosage to check (e.g., '' @ quote @ ''10mg'' @ quote @ '', '' @ quote @ ''500mg'' @ quote @ '')''\<rparr>],
      tool_required = [''medicine_name'']\<rparr>,
     \<lparr>tool_name = ''place_order'',
      tool_description = ''Place an order for a medicine. Orders require physician approval before dispensing.'',
      tool_properties =
        [\<lparr>prop_key = ''medicine_name'', prop_type = SString,
          prop_description = ''Name of the medicine to order''\<rparr>,
         \<lparr>prop_key = ''dosage'', prop_type = SString,
          prop_description = ''Dosage strength (e.g., '' @ quote @ ''10mg'' @ quote @ '', '' @ quote @ ''500mg'' @ quote @ '')''\<rparr>,
         \<lparr>prop_key = ''quantity'', prop_type = SInteger,
          prop_description = ''Number of units to order (default: 30)''\<rparr>,
         \<lparr>prop_key = ''patient_id'', prop_type = SString,
          prop_description = ''Patient identifier for the order''\<rparr>],
      tool_required = [''medicine_name'', ''dosage'', ''quantity'']\<rparr>,
     \<lparr>tool_name = ''check_drug_interactions'',
      tool_description = ''Check for potential drug interactions between multiple medicines. Important for patient safety.'',
      tool_properties =
        [\<lparr>prop_key = ''medicines'', prop_type = SArrayOfString,
          prop_description = ''List of medicine names to check for interactions''\<rparr>],
      tool_required = [''medicines'']\<rparr>,
     \<lparr>tool_name = ''get_order_status'',
      tool_description = ''Check the status of a medicine order by order ID.'',
      tool_properties =
        [\<lparr>prop_key = ''order_id'', prop_type = SString,
          prop_description = ''The order ID to check (e.g., '' @ quote @ ''ORD-1001'' @ quote @ '')''\<rparr>],
      tool_required = [''order_id'']\<rparr>]"

text \<open>
  The parsed body of a request. \<open>body.get("method", "")\<close>, \<open>body.get("params", {})\<close>,
  \<open>params.get("name", "")\<close> and \<open>params.get("arguments", {})\<close> fill in a default for an
  absent key, so those fields are options. \<open>body.get("id")\<close> is \<open>None\<close> for an absent key
  as for a JSON null: \<open>req_id = None\<close> stands for both, and \<open>'j\<close> is the type of the other
  JSON values.
\<close>

record call_params =
  call_name :: "string option"
  call_arguments :: "arguments option"

record 'j request =
  req_method :: "string option"
  req_params :: "call_params option"
  req_id :: "'j option"

datatype rpc_result =
    InitializeResult string string string string
  | ToolsList "tool_descriptor list"
  | ToolResult tool_result
  | ErrorObject int string

text \<open>\<open>InitializeResult protocolVersion name version description\<close>: the \<open>capabilities\<close> are
  the constant \<open>{"tools": {}}\<close>. \<open>ErrorObject code message\<close> is \<open>{"error": {"code": code,
  "message": message}}\<close>.\<close>

record 'j envelope =
  jsonrpc :: string
  resp_id :: "'j option"
  result :: rpc_result

text \<open>
  \<open>handle_mcp_request\<close> from the parsed body on. An exception that escapes the tool call
  escapes the handler too (nothing catches it), so no envelope is written: that is \<open>Inl\<close>.
\<close>

definition handle_mcp_request ::
  "(nat \<Rightarrow> int \<Rightarrow> string) \<Rightarrow> 'j request \<Rightarrow> order list
     \<Rightarrow> py_error + ('j envelope \<times> order list)" where
  "handle_mcp_request total_2f body orders =
     (let method = get_or (req_method body) [];
          params = get_or (req_params body) \<lparr>call_name = None, call_arguments = None\<rparr>;
          request_id = req_id body
      in
      if method = ''initialize''
      then Inr (\<lparr>jsonrpc = ''2.0'', resp_id = request_id,
                 result = InitializeResult ''2024-11-05'' ''medicine-order-server'' ''1.0.0''
                            ''Medicine ordering and drug interaction checking''\<rparr>, orders)
      else if method = ''tools/list''
      then Inr (\<lparr>jsonrpc = ''2.0'', resp_id = request_id, result = ToolsList TOOLS\<rparr>, orders)
      else if method = ''tools/call''
      then (case handle_tool_call total_2f (get_or (call_name params) [])
                   (get_or (call_arguments params) no_arguments) orders of
              Inl e \<Rightarrow> Inl e
            | Inr (r, orders') \<Rightarrow>
                Inr (\<lparr>jsonrpc = ''2.0'', resp_id = request_id, result = ToolResult r\<rparr>, orders'))
      else Inr (\<lparr>jsonrpc = ''2.0'', resp_id = request_id,
                 result = ErrorObject (- 32601) (''Unknown method: '' @ method)\<rparr>, orders))"

section \<open>Sequences of tool calls\<close>

text \<open>
  The server handles one call after the other on the module-level list \<open>orders\<close>, empty at
  start. A call that raises leaves the list as it was: the only raise of \<open>place_order\<close>
  comes before its append.
\<close>

definition ledger_step ::
  "(nat \<Rightarrow> int \<Rightarrow> string) \<Rightarrow> string \<times> arguments \<Rightarrow> order list \<Rightarrow> order list" where
  "ledger_step total_2f call orders =
     (case handle_tool_call total_2f (fst call) (snd call) orders of
        Inl e \<Rightarrow> orders
      | Inr (r, orders') \<Rightarrow> orders')"

text \<open>A successful \<open>place_order\<close> call: the tool is \<open>place_order\<close> and the handler returns a
  result without the error flag.\<close>

definition order_placed ::
  "(nat \<Rightarrow> int \<Rightarrow> string) \<Rightarrow> string \<times> arguments \<Rightarrow> order list \<Rightarrow> bool" where
  "order_placed total_2f call orders =
     (fst call = ''place_order'' \<and>
      (case handle_tool_call total_2f (fst call) (snd call) orders of
         Inl e \<Rightarrow> False
       | Inr (r, orders') \<Rightarrow> \<not> isError r))"

fun ledger_after ::
  "(nat \<Rightarrow> int \<Rightarrow> string) \<Rightarrow> (string \<times> arguments) list \<Rightarrow> order list \<Rightarrow> order list" where
  "ledger_after total_2f [] orders = orders"
| "ledger_after total_2f (call # calls) orders =
     ledger_after total_2f calls (ledger_step total_2f call orders)"

fun placed_count ::
  "(nat \<Rightarrow> int \<Rightarrow> string) \<Rightarrow> (string \<times> arguments) list \<Rightarrow> order list \<Rightarrow> nat" where
  "placed_count total_2f [] orders = 0"
| "placed_count total_2f (call # calls) orders =
     (if order_placed total_2f call orders then 1 else 0)
     + placed_count total_2f calls (ledger_step total_2f call orders)"

section \<open>Decimal rendering is injective\<close>

lemma of_char_digit: "d < 10 \<Longrightarrow> (of_char (digit_char d) :: nat) = 48 + d"
  unfolding digit_char_def by simp

lemma digit_char_inj: 
  assumes "a < 10" "b < 10" "digit_char a = digit_char b"
  shows "a = b"
proof -
  have "(of_char (digit_char a) :: nat) = of_char (digit_char b)"
    using assms(3) by (rule arg_cong)
  then have "48 + a = 48 + b"
    by (simp only: of_char_digit[OF assms(1)] of_char_digit[OF assms(2)])
  then show ?thesis by (simp only: add_left_cancel)
qed

lemma str_nat_nonempty: "str_nat n \<noteq> []"
  by (subst str_nat.simps) simp

lemma str_nat_last: "last (str_nat n) = digit_char (n mod 10)"
  by (subst str_nat.simps) simp

lemma str_nat_butlast: "butlast (str_nat n) = (if n < 10 then [] else str_nat (n div 10))"
  by (subst str_nat.simps) simp

lemma str_nat_inj: "str_nat m = str_nat n \<Longrightarrow> m = n"
proof (induction m arbitrary: n rule: str_nat.induct)
  case (1 m)
  from "1.prems" have l: "digit_char (m mod 10) = digit_char (n mod 10)"
    using str_nat_last by metis
  then have md: "m mod 10 = n mod 10"
    by (intro digit_char_inj) simp_all
  from "1.prems" have b: "butlast (str_nat m) = butlast (str_nat n)" by simp
  show ?case
  proof (cases "m < 10")
    case True
    with b have "n < 10" using str_nat_nonempty[of "n div 10"] by (auto simp: str_nat_butlast split: if_splits)
    with True md show ?thesis by simp
  next
    case False
    with b have n: "\<not> n < 10" using str_nat_nonempty[of "m div 10"] by (auto simp: str_nat_butlast split: if_splits)
    with False b have "str_nat (m div 10) = str_nat (n div 10)" by (simp add: str_nat_butlast)
    with "1.IH" False have "m div 10 = n div 10" by simp
    with md show ?thesis by (metis div_mult_mod_eq)
  qed
qed

section \<open>Name resolution returns the first match\<close>

lemma scan_catalog_None: "scan_catalog k cat = None \<longleftrightarrow> (\<forall>e \<in> set cat. \<not> key_matches k e)"
  by (induction cat) auto

lemma scan_catalog_Some:
  "scan_catalog k cat = Some m \<longleftrightarrow>
     (\<exists>i<length cat. snd (cat ! i) = m \<and> key_matches k (cat ! i) \<and> (\<forall>j<i. \<not> key_matches k (cat ! j)))"
proof (induction cat)
  case Nil
  then show ?case by simp
next
  case (Cons e cat)
  show ?case
  proof (cases "key_matches k e")
    case True
    have "(\<exists>i<length (e # cat). snd ((e # cat) ! i) = m \<and> key_matches k ((e # cat) ! i) \<and> (\<forall>j<i. \<not> key_matches k ((e # cat) ! j))) \<longleftrightarrow> snd e = m"
    proof
      assume "\<exists>i<length (e # cat). snd ((e # cat) ! i) = m \<and> key_matches k ((e # cat) ! i) \<and> (\<forall>j<i. \<not> key_matches k ((e # cat) ! j))"
      then obtain i where i: "snd ((e # cat) ! i) = m" "\<forall>j<i. \<not> key_matches k ((e # cat) ! j)" by blast
      have "i = 0"
      proof (rule ccontr)
        assume "i \<noteq> 0"
        then have "0 < i" by simp
        with i(2) have "\<not> key_matches k ((e # cat) ! 0)" by blast
        with True show False by simp
      qed
      with i(1) show "snd e = m" by simp
    next
      assume "snd e = m"
      with True show "\<exists>i<length (e # cat). snd ((e # cat) ! i) = m \<and> key_matches k ((e # cat) ! i) \<and> (\<forall>j<i. \<not> key_matches k ((e # cat) ! j))"
        by (intro exI[of _ 0]) simp
    qed
    with True show ?thesis by auto
  next
    case False
    have "(\<exists>i<length (e # cat). snd ((e # cat) ! i) = m \<and> key_matches k ((e # cat) ! i) \<and> (\<forall>j<i. \<not> key_matches k ((e # cat) ! j)))
      \<longleftrightarrow> (\<exists>i<length cat. snd (cat ! i) = m \<and> key_matches k (cat ! i) \<and> (\<forall>j<i. \<not> key_matches k (cat ! j)))"
      (is "?L \<longleftrightarrow> ?R")
    proof
      assume ?L
      then obtain i where i: "i < length (e # cat)" "snd ((e # cat) ! i) = m" "key_matches k ((e # cat) ! i)"
        "\<forall>j<i. \<not> key_matches k ((e # cat) ! j)" by blast
      from i(3) False obtain i' where i': "i = Suc i'" by (cases i) auto
      have "\<forall>j<i'. \<not> key_matches k (cat ! j)"
      proof (intro allI impI)
        fix j assume "j < i'"
        then have "Suc j < i" using i' by simp
        with i(4) have "\<not> key_matches k ((e # cat) ! Suc j)" by blast
        then show "\<not> key_matches k (cat ! j)" by simp
      qed
      with i i' show ?R by (intro exI[of _ i']) simp
    next
      assume ?R
      then obtain i where i: "i < length cat" "snd (cat ! i) = m" "key_matches k (cat ! i)"
        "\<forall>j<i. \<not> key_matches k (cat ! j)" by blast
      have "\<forall>j<Suc i. \<not> key_matches k ((e # cat) ! j)"
      proof (intro allI impI)
        fix j assume j: "j < Suc i"
        show "\<not> key_matches k ((e # cat) ! j)"
        proof (cases j)
          case 0
          with False show ?thesis by simp
        next
          case (Suc j')
          with j i(4) show ?thesis by simp
        qed
      qed
      with i show ?L by (intro exI[of _ "Suc i"]) simp
    qed
    with False Cons.IH show ?thesis by simp
  qed
qed

text \<open>
  C1 (as the code has it). For every input string, the name resolution of
  \<open>check_availability\<close> and \<open>place_order\<close> normalizes the input by lower-casing it and
  deleting its space characters, and returns the first catalog entry, in catalog order,
  such that the normalized input is a substring of the entry's lookup key or of the entry's
  display name normalized the same way; it returns nothing exactly when no entry
  satisfies this. The containment goes one way only.
\<close>

theorem found_med_first_match:
  "med_key s = filter (\<lambda>c. c \<noteq> CHR '' '') (map lower_char s) \<and>
   (found_med s = None \<longleftrightarrow>
      (\<forall>e \<in> set MEDICINES.
         \<not> (sublist (med_key s) (fst e) \<or> sublist (med_key s) (med_key (name (snd e)))))) \<and>
   (found_med s = Some m \<longleftrightarrow>
      (\<exists>i<length MEDICINES.
         snd (MEDICINES ! i) = m \<and>
         (sublist (med_key s) (fst (MEDICINES ! i))
            \<or> sublist (med_key s) (med_key (name (snd (MEDICINES ! i))))) \<and>
         (\<forall>j<i. \<not> (sublist (med_key s) (fst (MEDICINES ! j))
            \<or> sublist (med_key s) (med_key (name (snd (MEDICINES ! j))))))))"
  unfolding found_med_def scan_catalog_None scan_catalog_Some key_matches_def
  by (simp add: med_key_def remove_spaces_def lower_def)

theorem found_med_first_match_witness:
  "found_med ''Met Formin'' =
     Some \<lparr>name = ''Metformin'', dosages = [''500mg'', ''850mg'', ''1000mg''], price = 1250, category = ''Antidiabetic''\<rparr> \<and>
   (\<exists>i<length MEDICINES.
      snd (MEDICINES ! i) = \<lparr>name = ''Metformin'', dosages = [''500mg'', ''850mg'', ''1000mg''], price = 1250, category = ''Antidiabetic''\<rparr> \<and>
      (sublist (med_key ''Met Formin'') (fst (MEDICINES ! i))
         \<or> sublist (med_key ''Met Formin'') (med_key (name (snd (MEDICINES ! i))))) \<and>
      (\<forall>j<i. \<not> (sublist (med_key ''Met Formin'') (fst (MEDICINES ! j))
         \<or> sublist (med_key ''Met Formin'') (med_key (name (snd (MEDICINES ! j)))))))"
proof -
  have e: "found_med ''Met Formin'' =
     Some \<lparr>name = ''Metformin'', dosages = [''500mg'', ''850mg'', ''1000mg''], price = 1250, category = ''Antidiabetic''\<rparr>"
    by code_simp
  from e found_med_first_match [of "''Met Formin''"
      "\<lparr>name = ''Metformin'', dosages = [''500mg'', ''850mg'', ''1000mg''], price = 1250, category = ''Antidiabetic''\<rparr>"]
  show ?thesis by blast
qed

text \<open>
  C1 as stated fails: with containment in both directions the input \<open>Lisinopril 10mg\<close>
  would resolve to Lisinopril (the key \<open>lisinopril\<close> is a substring of
  \<open>lisinopril10mg\<close>), but the code finds nothing.
\<close>

theorem resolution_not_bidirectional:
  "found_med ''Lisinopril 10mg'' = None \<and>
   spec_resolve ''Lisinopril 10mg'' =
     Some \<lparr>name = ''Lisinopril'', dosages = [''5mg'', ''10mg'', ''20mg''], price = 1599, category = ''ACE Inhibitor''\<rparr>"
  by code_simp

section \<open>The interaction scan never raises\<close>

text \<open>Every name the scan looks up with \<open>index\<close> comes from \<open>medicines_lower\<close> itself, which is
  as long as \<open>medicines\<close>, so neither \<open>ValueError\<close> nor \<open>IndexError\<close> can occur.\<close>

lemma index_of_member: "x \<in> set xs \<Longrightarrow> \<exists>k<length xs. index_of xs x = Some k"
  by (induction xs) auto

lemma original_of_total:
  "length ms = length ml \<Longrightarrow> m \<in> set ml \<Longrightarrow> \<exists>s. original_of ms ml m = Inr s"
  using index_of_member[of m ml] by (auto simp: original_of_def)

lemma pair_label_total:
  "length ms = length ml \<Longrightarrow> med1 \<in> set ml \<Longrightarrow> med2 \<in> set ml
     \<Longrightarrow> \<exists>l. pair_label ms ml med1 med2 = Inr l"
  using original_of_total[of ms ml med1] original_of_total[of ms ml med2]
  by (auto simp: pair_label_def)

lemma scan_rules_total:
  "length ms = length ml \<Longrightarrow> med1 \<in> set ml \<Longrightarrow> med2 \<in> set ml
     \<Longrightarrow> \<exists>found'. scan_rules ms ml med1 med2 rules found = Inr found'"
proof (induction rules arbitrary: found)
  case Nil
  then show ?case by simp
next
  case (Cons rule rules)
  obtain drug1 drug2 sev descr where r: "rule = ((drug1, drug2), (sev, descr))"
    by (metis surj_pair)
  from Cons.prems obtain l where l: "pair_label ms ml med1 med2 = Inr l"
    using pair_label_total by blast
  show ?case
    using Cons.IH[OF Cons.prems] by (simp add: r l)
qed

lemma scan_seconds_total:
  "length ms = length ml \<Longrightarrow> med1 \<in> set ml \<Longrightarrow> set rest \<subseteq> set ml
     \<Longrightarrow> \<exists>found'. scan_seconds ms ml med1 rest found = Inr found'"
proof (induction rest arbitrary: found)
  case Nil
  then show ?case by simp
next
  case (Cons med2 rest)
  from Cons.prems have "\<exists>f. scan_rules ms ml med1 med2 interactions found = Inr f"
    by (intro scan_rules_total) simp_all
  then obtain f where f: "scan_rules ms ml med1 med2 interactions found = Inr f" ..
  from Cons.prems have "set rest \<subseteq> set ml" by simp
  from Cons.IH[OF Cons.prems(1,2) this] show ?case by (simp add: f)
qed

lemma scan_firsts_total:
  "length ms = length ml \<Longrightarrow> set rest \<subseteq> set ml
     \<Longrightarrow> \<exists>found'. scan_firsts ms ml rest found = Inr found'"
proof (induction rest arbitrary: found)
  case Nil
  then show ?case by simp
next
  case (Cons med1 rest)
  from Cons.prems have "\<exists>f. scan_seconds ms ml med1 rest found = Inr f"
    by (intro scan_seconds_total) simp_all
  then obtain f where f: "scan_seconds ms ml med1 rest found = Inr f" ..
  from Cons.prems have "set rest \<subseteq> set ml" by simp
  from Cons.IH[OF Cons.prems(1) this] show ?case by (simp add: f)
qed

lemma found_interactions_total: "\<exists>found. found_interactions medicines = Inr found"
  unfolding found_interactions_def Let_def
  by (rule scan_firsts_total) simp_all

lemma check_drug_interactions_total:
  "\<exists>r. check_drug_interactions medicines = Inr r \<and> \<not> isError r"
proof -
  obtain found where "found_interactions medicines = Inr found"
    using found_interactions_total by blast
  then show ?thesis
    by (simp add: check_drug_interactions_def reported_interactions_def ok_result_def)
qed

section \<open>The interaction report\<close>

text \<open>
  C5. The interaction check is symmetric on the pair lisinopril, losartan: in either input
  order the report holds exactly one match, of severity SEVERE, with the same description
  text (the drug pair is printed in input order).
\<close>

theorem lisinopril_losartan_symmetric:
  "reported_interactions [''lisinopril'', ''losartan''] =
     Inr [\<lparr>drugs = ''lisinopril + losartan'', severity = ''SEVERE'',
           description = ''Do NOT combine ACE inhibitors with ARBs - increased risk of hyperkalemia and kidney damage''\<rparr>] \<and>
   reported_interactions [''losartan'', ''lisinopril''] =
     Inr [\<lparr>drugs = ''losartan + lisinopril'', severity = ''SEVERE'',
           description = ''Do NOT combine ACE inhibitors with ARBs - increased risk of hyperkalemia and kidney damage''\<rparr>] \<and>
   check_drug_interactions [''lisinopril'', ''losartan''] =
     Inr (ok_result (''Drug Interaction Check for: lisinopril, losartan\<newline>\<newline>''
       @ ''[SEVERE] lisinopril + losartan: Do NOT combine ACE inhibitors with ARBs - increased risk of hyperkalemia and kidney damage\<newline>\<newline>'')) \<and>
   check_drug_interactions [''losartan'', ''lisinopril''] =
     Inr (ok_result (''Drug Interaction Check for: losartan, lisinopril\<newline>\<newline>''
       @ ''[SEVERE] losartan + lisinopril: Do NOT combine ACE inhibitors with ARBs - increased risk of hyperkalemia and kidney damage\<newline>\<newline>''))"
  by code_simp

text \<open>
  C6. For every input list, the matches of the report are the matches of the pairwise scan
  sorted by severity rank, SEVERE (0) before MODERATE (1) before MINOR (2) before SAFE (3),
  any other severity ranking last (4); the sort is stable: the matches of any one rank
  keep the order in which the scan produced them.
\<close>

theorem reported_interactions_sorted_stable:
  "\<exists>found ranked.
     found_interactions medicines = Inr found \<and>
     reported_interactions medicines = Inr ranked \<and>
     sorted (map (\<lambda>x. severity_order (severity x)) ranked) \<and>
     (\<forall>k. filter (\<lambda>x. severity_order (severity x) = k) ranked
           = filter (\<lambda>x. severity_order (severity x) = k) found) \<and>
     severity_order ''SEVERE'' = 0 \<and> severity_order ''MODERATE'' = 1 \<and>
     severity_order ''MINOR'' = 2 \<and> severity_order ''SAFE'' = 3 \<and>
     (\<forall>s. s \<notin> {''SEVERE'', ''MODERATE'', ''MINOR'', ''SAFE''} \<longrightarrow> severity_order s = 4)"
proof -
  obtain found where f: "found_interactions medicines = Inr found"
    using found_interactions_total by blast
  let ?ranked = "if found \<noteq> [] then sort_by_severity found else found"
  have r: "reported_interactions medicines = Inr ?ranked"
    by (simp add: reported_interactions_def f)
  have s: "sorted (map (\<lambda>x. severity_order (severity x)) ?ranked)"
    by (simp add: sort_by_severity_def)
  have st: "\<forall>k. filter (\<lambda>x. severity_order (severity x) = k) ?ranked
                = filter (\<lambda>x. severity_order (severity x) = k) found"
    by (simp add: sort_by_severity_def sort_key_stable)
  have ranks: "severity_order ''SEVERE'' = 0 \<and> severity_order ''MODERATE'' = 1 \<and>
     severity_order ''MINOR'' = 2 \<and> severity_order ''SAFE'' = 3 \<and>
     (\<forall>s. s \<notin> {''SEVERE'', ''MODERATE'', ''MINOR'', ''SAFE''} \<longrightarrow> severity_order s = 4)"
    by (simp add: severity_order_def)
  from f r s st ranks show ?thesis by blast
qed

theorem reported_interactions_sorted_stable_witness:
  "reported_interactions [''Aspirin'', ''metformin'', ''Lisinopril'', ''ibuprofen''] =
     Inr [\<lparr>drugs = ''Aspirin + ibuprofen'', severity = ''MODERATE'',
           description = ''NSAIDs may reduce cardioprotective effect of low-dose aspirin''\<rparr>,
          \<lparr>drugs = ''Lisinopril + ibuprofen'', severity = ''MODERATE'',
           description = ''NSAIDs may reduce the antihypertensive effect of ACE inhibitors and increase risk of kidney problems''\<rparr>,
          \<lparr>drugs = ''Aspirin + Lisinopril'', severity = ''MINOR'',
           description = ''Low-dose aspirin is generally safe with ACE inhibitors''\<rparr>,
          \<lparr>drugs = ''metformin + ibuprofen'', severity = ''MINOR'',
           description = ''NSAIDs may slightly increase risk of lactic acidosis with metformin''\<rparr>,
          \<lparr>drugs = ''metformin + Lisinopril'', severity = ''SAFE'',
           description = ''Commonly prescribed together for diabetic patients with hypertension''\<rparr>] \<and>
   (\<exists>ranked. reported_interactions [''Aspirin'', ''metformin'', ''Lisinopril'', ''ibuprofen''] = Inr ranked \<and>
      sorted (map (\<lambda>x. severity_order (severity x)) ranked)) \<and>
   severity_order ''UNRANKED'' = 4"
proof -
  have e: "reported_interactions [''Aspirin'', ''metformin'', ''Lisinopril'', ''ibuprofen''] =
     Inr [\<lparr>drugs = ''Aspirin + ibuprofen'', severity = ''MODERATE'',
           description = ''NSAIDs may reduce cardioprotective effect of low-dose aspirin''\<rparr>,
          \<lparr>drugs = ''Lisinopril + ibuprofen'', severity = ''MODERATE'',
           description = ''NSAIDs may reduce the antihypertensive effect of ACE inhibitors and increase risk of kidney problems''\<rparr>,
          \<lparr>drugs = ''Aspirin + Lisinopril'', severity = ''MINOR'',
           description = ''Low-dose aspirin is generally safe with ACE inhibitors''\<rparr>,
          \<lparr>drugs = ''metformin + ibuprofen'', severity = ''MINOR'',
           description = ''NSAIDs may slightly increase risk of lactic acidosis with metformin''\<rparr>,
          \<lparr>drugs = ''metformin + Lisinopril'', severity = ''SAFE'',
           description = ''Commonly prescribed together for diabetic patients with hypertension''\<rparr>]"
    by code_simp
  have n: "''UNRANKED'' \<notin> {''SEVERE'', ''MODERATE'', ''MINOR'', ''SAFE''}" by simp
  from reported_interactions_sorted_stable
    [of "[''Aspirin'', ''metformin'', ''Lisinopril'', ''ibuprofen'']"]
  obtain found ranked where
    r: "reported_interactions [''Aspirin'', ''metformin'', ''Lisinopril'', ''ibuprofen''] = Inr ranked"
    and s: "sorted (map (\<lambda>x. severity_order (severity x)) ranked)"
    and u: "\<forall>s. s \<notin> {''SEVERE'', ''MODERATE'', ''MINOR'', ''SAFE''} \<longrightarrow> severity_order s = 4"
    by (elim exE conjE) (rule that, assumption+)
  from u have "''UNRANKED'' \<notin> {''SEVERE'', ''MODERATE'', ''MINOR'', ''SAFE''} \<longrightarrow> severity_order ''UNRANKED'' = 4"
    by (rule spec)
  then have u': "severity_order ''UNRANKED'' = 4" using n by (rule mp)
  from r s have rs: "\<exists>ranked. reported_interactions [''Aspirin'', ''metformin'', ''Lisinopril'', ''ibuprofen''] = Inr ranked \<and>
      sorted (map (\<lambda>x. severity_order (severity x)) ranked)"
    by (intro exI[of _ ranked] conjI)
  from e rs u' show ?thesis by (intro conjI)
qed

section \<open>The outcomes of place_order\<close>

lemma isError_error_result [simp]: "isError (error_result t)"
  by (simp add: error_result_def)

lemma isError_ok_result [simp]: "\<not> isError (ok_result t)"
  by (simp add: ok_result_def)

lemma place_order_not_found:
  "found_med mn = None \<Longrightarrow>
   place_order fmt mn dose qty pid orders
     = Inr (error_result (''Order Failed: '' @ mn @ '' not found.''), orders)"
  by (simp add: place_order_def)

lemma place_order_invalid_dosage:
  "found_med mn = Some med \<Longrightarrow> dose \<notin> set (dosages med) \<Longrightarrow>
   place_order fmt mn dose qty pid orders
     = Inr (error_result (''Order Failed: '' @ dose @ '' not valid for '' @ name med @ ''.''), orders)"
  by (simp add: place_order_def)

lemma place_order_overflow:
  "found_med mn = Some med \<Longrightarrow> dose \<in> set (dosages med) \<Longrightarrow> \<not> float_of_int_ok qty \<Longrightarrow>
   place_order fmt mn dose qty pid orders = Inl OverflowError"
  by (simp add: place_order_def)

lemma place_order_success:
  "found_med mn = Some med \<Longrightarrow> dose \<in> set (dosages med) \<Longrightarrow> float_of_int_ok qty \<Longrightarrow>
   \<exists>r. place_order fmt mn dose qty pid orders
          = Inr (r, orders @ [new_order med dose qty pid orders]) \<and> \<not> isError r"
  by (simp add: place_order_def Let_def)

lemma place_order_returns:
  assumes "place_order fmt mn dose qty pid orders = Inr (r, orders')"
  shows "(isError r \<and> orders' = orders \<and>
            (found_med mn = None \<or> (\<exists>med. found_med mn = Some med \<and> dose \<notin> set (dosages med))))
         \<or> (\<not> isError r \<and>
            (\<exists>med. found_med mn = Some med \<and> dose \<in> set (dosages med) \<and> float_of_int_ok qty \<and>
               orders' = orders @ [new_order med dose qty pid orders]))"
proof (cases "found_med mn")
  case None
  with assms show ?thesis by (auto simp: place_order_not_found)
next
  case (Some med)
  show ?thesis
  proof (cases "dose \<in> set (dosages med)")
    case False
    with Some assms show ?thesis by (auto simp: place_order_invalid_dosage)
  next
    case True
    show ?thesis
    proof (cases "float_of_int_ok qty")
      case False
      with Some True assms show ?thesis by (simp add: place_order_overflow)
    next
      case ok: True
      from place_order_success[OF Some True ok, of fmt pid orders] assms Some True ok
      show ?thesis by auto
    qed
  qed
qed

lemma other_tools_keep_ledger:
  assumes "tool \<noteq> ''place_order''"
  shows "\<exists>r. handle_tool_call fmt tool args orders = Inr (r, orders)"
proof -
  obtain r where "check_drug_interactions (get_or (arg_medicines args) []) = Inr r"
    using check_drug_interactions_total by blast
  with assms show ?thesis by (simp add: handle_tool_call_def)
qed

section \<open>The ledger over a sequence of calls\<close>

lemma ledger_step_placed:
  assumes "order_placed fmt call orders"
  shows "\<exists>ord. ledger_step fmt call orders = orders @ [ord]
           \<and> order_id ord = ''ORD-'' @ str_nat (length orders + 1001)"
proof -
  from assms have t: "fst call = ''place_order''" by (simp add: order_placed_def)
  from assms obtain r orders' where
    h: "handle_tool_call fmt (fst call) (snd call) orders = Inr (r, orders')" and ne: "\<not> isError r"
    by (auto simp: order_placed_def split: sum.splits)
  from h t have "place_order fmt (get_or (arg_medicine_name (snd call)) [])
      (get_or (arg_dosage (snd call)) []) (get_or (arg_quantity (snd call)) 30)
      (get_or (arg_patient_id (snd call)) ''UNKNOWN'') orders = Inr (r, orders')"
    by (simp add: handle_tool_call_def)
  from place_order_returns[OF this] ne obtain med where
    "orders' = orders @ [new_order med (get_or (arg_dosage (snd call)) [])
       (get_or (arg_quantity (snd call)) 30) (get_or (arg_patient_id (snd call)) ''UNKNOWN'') orders]"
    by auto
  with h show ?thesis by (simp add: ledger_step_def new_order_def)
qed

lemma ledger_step_not_placed:
  assumes "\<not> order_placed fmt call orders"
  shows "ledger_step fmt call orders = orders"
proof (cases "fst call = ''place_order''")
  case False
  from other_tools_keep_ledger[OF False, of fmt "snd call" orders]
  show ?thesis by (auto simp: ledger_step_def)
next
  case True
  show ?thesis
  proof (cases "handle_tool_call fmt (fst call) (snd call) orders")
    case (Inl e)
    then show ?thesis by (simp add: ledger_step_def)
  next
    case (Inr p)
    obtain r orders' where p: "p = (r, orders')" by (cases p)
    from assms True Inr p have e: "isError r" by (simp add: order_placed_def)
    from Inr p True have "place_order fmt (get_or (arg_medicine_name (snd call)) [])
      (get_or (arg_dosage (snd call)) []) (get_or (arg_quantity (snd call)) 30)
      (get_or (arg_patient_id (snd call)) ''UNKNOWN'') orders = Inr (r, orders')"
      by (simp add: handle_tool_call_def)
    from place_order_returns[OF this] e have "orders' = orders" by auto
    with Inr p show ?thesis by (simp add: ledger_step_def)
  qed
qed

lemma ledger_after_length:
  "length (ledger_after fmt calls orders) = length orders + placed_count fmt calls orders"
proof (induction calls arbitrary: orders)
  case Nil
  then show ?case by simp
next
  case (Cons call calls)
  show ?case
  proof (cases "order_placed fmt call orders")
    case True
    from ledger_step_placed[OF True] obtain ord where
      "ledger_step fmt call orders = orders @ [ord]" by blast
    with True Cons.IH[of "ledger_step fmt call orders"] show ?thesis by simp
  next
    case False
    with ledger_step_not_placed[OF False] Cons.IH[of "ledger_step fmt call orders"]
    show ?thesis by simp
  qed
qed

lemma ledger_after_ids:
  assumes "map order_id orders = map (\<lambda>i. ''ORD-'' @ str_nat (1001 + i)) [0..<length orders]"
  shows "map order_id (ledger_after fmt calls orders)
           = map (\<lambda>i. ''ORD-'' @ str_nat (1001 + i)) [0..<length (ledger_after fmt calls orders)]"
  using assms
proof (induction calls arbitrary: orders)
  case Nil
  then show ?case by simp
next
  case (Cons call calls)
  have "map order_id (ledger_step fmt call orders)
          = map (\<lambda>i. ''ORD-'' @ str_nat (1001 + i)) [0..<length (ledger_step fmt call orders)]"
  proof (cases "order_placed fmt call orders")
    case True
    from ledger_step_placed[OF True] obtain ord where
      s: "ledger_step fmt call orders = orders @ [ord]"
      and i: "order_id ord = ''ORD-'' @ str_nat (length orders + 1001)" by blast
    show ?thesis unfolding s using Cons.prems i by (simp add: add.commute)
  next
    case False
    with ledger_step_not_placed[OF False] Cons.prems show ?thesis by simp
  qed
  from Cons.IH[OF this] show ?case by simp
qed

lemma ledger_after_extends:
  "\<exists>more. ledger_after fmt calls orders = orders @ more"
proof (induction calls arbitrary: orders)
  case Nil
  then show ?case by simp
next
  case (Cons call calls)
  obtain one where o: "ledger_step fmt call orders = orders @ one"
    using ledger_step_placed[of fmt call orders] ledger_step_not_placed[of fmt call orders]
    by (cases "order_placed fmt call orders") auto
  from Cons.IH[of "ledger_step fmt call orders"] obtain more where
    "ledger_after fmt calls (ledger_step fmt call orders) = ledger_step fmt call orders @ more"
    by blast
  with o show ?case by simp
qed

lemma order_ids_distinct:
  "distinct (map (\<lambda>i. ''ORD-'' @ str_nat (1001 + i)) [0..<n])"
  by (auto simp: distinct_map inj_on_def dest: str_nat_inj)

lemma get_order_status_missing:
  "oid \<notin> order_id ` set orders \<Longrightarrow>
   get_order_status oid orders = error_result (''Order '' @ oid @ '' not found.'')"
  by (induction orders) auto

lemma get_order_status_present:
  "distinct (map order_id orders) \<Longrightarrow> ord \<in> set orders \<Longrightarrow>
   get_order_status (order_id ord) orders
     = ok_result (''Order '' @ order_id ord @ '': '' @ medicine ord @ '' '' @ dosage ord
         @ '' x'' @ str_int (quantity ord) @ '' - '' @ status ord)"
  by (induction orders) auto

lemma get_order_status_error_iff:
  "isError (get_order_status oid orders) \<longleftrightarrow> oid \<notin> order_id ` set orders"
  by (induction orders) auto

text \<open>
  C2. After any sequence of tool calls, started on the empty ledger, that contains exactly
  \<open>N\<close> successful \<open>place_order\<close> calls (among arbitrary other calls and failed
  \<open>place_order\<close> attempts), the ledger holds exactly \<open>N\<close> orders, and their order ids are, in
  append order, ORD-1001, ORD-1002, ..., ORD-(1000+N): gap-free, increasing, and no id
  occurs twice.
\<close>

theorem order_ids_sequential:
  "length (ledger_after fmt calls []) = placed_count fmt calls [] \<and>
   map order_id (ledger_after fmt calls [])
     = map (\<lambda>i. ''ORD-'' @ str_nat (1000 + i)) [1..<Suc (placed_count fmt calls [])] \<and>
   distinct (map order_id (ledger_after fmt calls []))"
proof -
  have len: "length (ledger_after fmt calls []) = placed_count fmt calls []"
    using ledger_after_length[of fmt calls "[]"] by simp
  have ids: "map order_id (ledger_after fmt calls [])
      = map (\<lambda>i. ''ORD-'' @ str_nat (1001 + i)) [0..<length (ledger_after fmt calls [])]"
    by (rule ledger_after_ids) simp
  have shift: "map (\<lambda>i. ''ORD-'' @ str_nat (1001 + i)) [0..<n]
      = map (\<lambda>i. ''ORD-'' @ str_nat (1000 + i)) [1..<Suc n]" for n
  proof -
    have "[1..<Suc n] = map Suc [0..<n]" by (simp add: map_Suc_upt)
    then show ?thesis by (simp add: comp_def)
  qed
  from ids have d: "distinct (map order_id (ledger_after fmt calls []))"
    using order_ids_distinct by simp
  from len ids shift d show ?thesis by simp
qed

theorem order_ids_sequential_witness:
  "placed_count (\<lambda>p q. [])
     [(''place_order'', no_arguments\<lparr>arg_medicine_name := Some ''metformin'', arg_dosage := Some ''500mg''\<rparr>),
      (''place_order'', no_arguments\<lparr>arg_medicine_name := Some ''metformin'', arg_dosage := Some ''999mg''\<rparr>),
      (''get_order_status'', no_arguments\<lparr>arg_order_id := Some ''ORD-1001''\<rparr>),
      (''place_order'', no_arguments\<lparr>arg_medicine_name := Some ''unobtainium'', arg_dosage := Some ''5mg''\<rparr>),
      (''place_order'', no_arguments\<lparr>arg_medicine_name := Some ''Lisinopril'', arg_dosage := Some ''5mg'', arg_quantity := Some 7\<rparr>)] [] = 2 \<and>
   map order_id (ledger_after (\<lambda>p q. [])
     [(''place_order'', no_arguments\<lparr>arg_medicine_name := Some ''metformin'', arg_dosage := Some ''500mg''\<rparr>),
      (''place_order'', no_arguments\<lparr>arg_medicine_name := Some ''metformin'', arg_dosage := Some ''999mg''\<rparr>),
      (''get_order_status'', no_arguments\<lparr>arg_order_id := Some ''ORD-1001''\<rparr>),
      (''place_order'', no_arguments\<lparr>arg_medicine_name := Some ''unobtainium'', arg_dosage := Some ''5mg''\<rparr>),
      (''place_order'', no_arguments\<lparr>arg_medicine_name := Some ''Lisinopril'', arg_dosage := Some ''5mg'', arg_quantity := Some 7\<rparr>)] [])
     = [''ORD-1001'', ''ORD-1002'']"
  (is "placed_count ?F ?C [] = 2 \<and> map order_id (ledger_after ?F ?C []) = ?ids")
proof -
  have pc: "placed_count ?F ?C [] = 2" by code_simp
  have m: "map (\<lambda>i. ''ORD-'' @ str_nat (1000 + i)) [1..<Suc 2] = ?ids" by code_simp
  from order_ids_sequential[of ?F ?C]
  have "map order_id (ledger_after ?F ?C [])
     = map (\<lambda>i. ''ORD-'' @ str_nat (1000 + i)) [1..<Suc (placed_count ?F ?C [])]"
    by (elim conjE)
  then have "map order_id (ledger_after ?F ?C []) = map (\<lambda>i. ''ORD-'' @ str_nat (1000 + i)) [1..<Suc 2]"
    by (simp only: pc)
  then have "map order_id (ledger_after ?F ?C []) = ?ids" by (simp only: m)
  with pc show ?thesis by (intro conjI)
qed

text \<open>
  C3. \<open>place_order\<close> is atomic and is the only tool that changes state: when the medicine
  name does not resolve, or the dosage is not among the valid dosages of the resolved
  record, it returns an error-flagged result and the ledger it returns is the ledger it was
  given; whenever it returns, the ledger is either unchanged (with the error flag) or
  extended by exactly one order (without it); every other tool name leaves the ledger as
  it was.
\<close>

theorem place_order_atomic:
  "(found_med mn = None \<longrightarrow>
      place_order fmt mn dose qty pid orders
        = Inr (error_result (''Order Failed: '' @ mn @ '' not found.''), orders)) \<and>
   (\<forall>med. found_med mn = Some med \<and> dose \<notin> set (dosages med) \<longrightarrow>
      place_order fmt mn dose qty pid orders
        = Inr (error_result (''Order Failed: '' @ dose @ '' not valid for '' @ name med @ ''.''), orders)) \<and>
   (\<forall>r orders'. place_order fmt mn dose qty pid orders = Inr (r, orders') \<longrightarrow>
      (isError r \<and> orders' = orders) \<or> (\<not> isError r \<and> (\<exists>ord. orders' = orders @ [ord]))) \<and>
   (tool \<noteq> ''place_order'' \<longrightarrow> (\<exists>r. handle_tool_call fmt tool args orders = Inr (r, orders)))"
proof (intro conjI allI impI)
  assume "found_med mn = None"
  then show "place_order fmt mn dose qty pid orders
      = Inr (error_result (''Order Failed: '' @ mn @ '' not found.''), orders)"
    by (rule place_order_not_found)
next
  fix med assume "found_med mn = Some med \<and> dose \<notin> set (dosages med)"
  then show "place_order fmt mn dose qty pid orders
      = Inr (error_result (''Order Failed: '' @ dose @ '' not valid for '' @ name med @ ''.''), orders)"
    by (simp add: place_order_invalid_dosage)
next
  fix r orders' assume "place_order fmt mn dose qty pid orders = Inr (r, orders')"
  from place_order_returns[OF this]
  show "(isError r \<and> orders' = orders) \<or> (\<not> isError r \<and> (\<exists>ord. orders' = orders @ [ord]))"
    by auto
next
  assume "tool \<noteq> ''place_order''"
  then show "\<exists>r. handle_tool_call fmt tool args orders = Inr (r, orders)"
    by (rule other_tools_keep_ledger)
qed

theorem place_order_atomic_witness:
  "place_order (\<lambda>p q. []) ''unobtainium'' ''5mg'' 30 ''UNKNOWN'' []
     = Inr (error_result (''Order Failed: '' @ ''unobtainium'' @ '' not found.''), []) \<and>
   place_order (\<lambda>p q. []) ''metformin'' ''999mg'' 30 ''UNKNOWN'' []
     = Inr (error_result (''Order Failed: '' @ ''999mg'' @ '' not valid for ''
              @ name \<lparr>name = ''Metformin'', dosages = [''500mg'', ''850mg'', ''1000mg''], price = 1250, category = ''Antidiabetic''\<rparr> @ ''.''), []) \<and>
   (\<exists>r. handle_tool_call (\<lambda>p q. []) ''get_order_status'' no_arguments [] = Inr (r, []))"
proof -
  let ?M = "\<lparr>name = ''Metformin'', dosages = [''500mg'', ''850mg'', ''1000mg''], price = 1250, category = ''Antidiabetic''\<rparr>"
  have n: "found_med ''unobtainium'' = None" by code_simp
  have f: "found_med ''metformin'' = Some ?M" by code_simp
  have d: "''999mg'' \<notin> set (dosages ?M)" by simp
  have t: "''get_order_status'' \<noteq> ''place_order''" by simp
  note a = place_order_atomic[of "''unobtainium''" "\<lambda>p q. []" "''5mg''" 30 "''UNKNOWN''" "[]"
             "''get_order_status''" no_arguments]
  note b = place_order_atomic[of "''metformin''" "\<lambda>p q. []" "''999mg''" 30 "''UNKNOWN''" "[]"
             "''get_order_status''" no_arguments]
  from a have "found_med ''unobtainium'' = None \<longrightarrow>
      place_order (\<lambda>p q. []) ''unobtainium'' ''5mg'' 30 ''UNKNOWN'' []
        = Inr (error_result (''Order Failed: '' @ ''unobtainium'' @ '' not found.''), [])"
    by (rule conjunct1)
  then have 1: "place_order (\<lambda>p q. []) ''unobtainium'' ''5mg'' 30 ''UNKNOWN'' []
        = Inr (error_result (''Order Failed: '' @ ''unobtainium'' @ '' not found.''), [])"
    using n by (rule mp)
  from b have "\<forall>med. found_med ''metformin'' = Some med \<and> ''999mg'' \<notin> set (dosages med) \<longrightarrow>
      place_order (\<lambda>p q. []) ''metformin'' ''999mg'' 30 ''UNKNOWN'' []
        = Inr (error_result (''Order Failed: '' @ ''999mg'' @ '' not valid for '' @ name med @ ''.''), [])"
    by (elim conjE)
  then have "found_med ''metformin'' = Some ?M \<and> ''999mg'' \<notin> set (dosages ?M) \<longrightarrow>
      place_order (\<lambda>p q. []) ''metformin'' ''999mg'' 30 ''UNKNOWN'' []
        = Inr (error_result (''Order Failed: '' @ ''999mg'' @ '' not valid for '' @ name ?M @ ''.''), [])"
    by (rule spec)
  then have 2: "place_order (\<lambda>p q. []) ''metformin'' ''999mg'' 30 ''UNKNOWN'' []
        = Inr (error_result (''Order Failed: '' @ ''999mg'' @ '' not valid for '' @ name ?M @ ''.''), [])"
    using conjI[OF f d] by (rule mp)
  from a have "''get_order_status'' \<noteq> ''place_order'' \<longrightarrow>
      (\<exists>r. handle_tool_call (\<lambda>p q. []) ''get_order_status'' no_arguments [] = Inr (r, []))"
    by (elim conjE)
  then have 3: "\<exists>r. handle_tool_call (\<lambda>p q. []) ''get_order_status'' no_arguments [] = Inr (r, [])"
    using t by (rule mp)
  from 1 2 3 show ?thesis by (intro conjI)
qed

text \<open>
  C4. Among the five tool handlers, \<open>search_medicines\<close> and \<open>check_availability\<close> never set
  the error flag, whatever the input, and neither does \<open>check_drug_interactions\<close>; the flag
  is set exactly by \<open>place_order\<close> on a name that does not resolve or on a dosage that is
  not valid for the resolved record, and by \<open>get_order_status\<close> on an id that no order of
  the ledger has.
\<close>

theorem error_flag_exactly:
  "\<not> isError (search_medicines query) \<and>
   \<not> isError (check_availability mn dosage_arg) \<and>
   (\<exists>r. check_drug_interactions medicines = Inr r \<and> \<not> isError r) \<and>
   (isError (get_order_status oid orders) \<longleftrightarrow> oid \<notin> order_id ` set orders) \<and>
   (\<forall>r orders'. place_order fmt mn dose qty pid orders = Inr (r, orders') \<longrightarrow>
      (isError r \<longleftrightarrow>
         found_med mn = None \<or> (\<exists>med. found_med mn = Some med \<and> dose \<notin> set (dosages med)))) \<and>
   (found_med mn = None \<or> (\<exists>med. found_med mn = Some med \<and> dose \<notin> set (dosages med)) \<longrightarrow>
      (\<exists>r. place_order fmt mn dose qty pid orders = Inr (r, orders) \<and> isError r))"
proof (intro conjI allI impI)
  show "\<not> isError (search_medicines query)"
    by (simp add: search_medicines_def Let_def)
  show "\<not> isError (check_availability mn dosage_arg)"
    by (simp add: check_availability_def split: option.splits)
  show "\<exists>r. check_drug_interactions medicines = Inr r \<and> \<not> isError r"
    by (rule check_drug_interactions_total)
  show "isError (get_order_status oid orders) \<longleftrightarrow> oid \<notin> order_id ` set orders"
    by (rule get_order_status_error_iff)
next
  fix r orders' assume "place_order fmt mn dose qty pid orders = Inr (r, orders')"
  from place_order_returns[OF this]
  show "isError r \<longleftrightarrow>
         found_med mn = None \<or> (\<exists>med. found_med mn = Some med \<and> dose \<notin> set (dosages med))"
    by auto
next
  assume "found_med mn = None \<or> (\<exists>med. found_med mn = Some med \<and> dose \<notin> set (dosages med))"
  then show "\<exists>r. place_order fmt mn dose qty pid orders = Inr (r, orders) \<and> isError r"
    by (auto simp: place_order_not_found place_order_invalid_dosage)
qed

theorem error_flag_exactly_witness:
  "\<not> isError (search_medicines ''zzz'') \<and>
   \<not> isError (check_availability ''unobtainium'' None) \<and>
   isError (get_order_status ''ORD-1001'' []) \<and>
   (\<exists>r. place_order (\<lambda>p q. []) ''unobtainium'' ''5mg'' 30 ''UNKNOWN'' [] = Inr (r, []) \<and> isError r)"
proof -
  note t = error_flag_exactly[of "''zzz''" "''unobtainium''" None "[]" "''ORD-1001''" "[]"
             "\<lambda>p q. []" "''5mg''" 30 "''UNKNOWN''"]
  have n: "found_med ''unobtainium'' = None" by code_simp
  have m: "''ORD-1001'' \<notin> order_id ` set ([] :: order list)" by simp
  from t have 1: "\<not> isError (search_medicines ''zzz'')" by (elim conjE)
  from t have 2: "\<not> isError (check_availability ''unobtainium'' None)" by (elim conjE)
  from t have "isError (get_order_status ''ORD-1001'' []) \<longleftrightarrow> ''ORD-1001'' \<notin> order_id ` set ([] :: order list)"
    by (elim conjE)
  then have 3: "isError (get_order_status ''ORD-1001'' [])" using m by (rule iffD2)
  from t have "found_med ''unobtainium'' = None
        \<or> (\<exists>med. found_med ''unobtainium'' = Some med \<and> ''5mg'' \<notin> set (dosages med)) \<longrightarrow>
      (\<exists>r. place_order (\<lambda>p q. []) ''unobtainium'' ''5mg'' 30 ''UNKNOWN'' [] = Inr (r, []) \<and> isError r)"
    by (elim conjE)
  then have 4: "\<exists>r. place_order (\<lambda>p q. []) ''unobtainium'' ''5mg'' 30 ''UNKNOWN'' [] = Inr (r, []) \<and> isError r"
    using disjI1[OF n] by (rule mp)
  from 1 2 3 4 show ?thesis by (intro conjI)
qed

text \<open>
  C9. \<open>get_order_status\<close> returns the error-flagged not-found result whenever no order of
  the ledger has exactly that id. An order that a successful \<open>place_order\<close> appended (to a
  ledger reached from the empty one) records the resolved medicine name, the dosage and
  quantity of the call and the status PENDING_PHYSICIAN_APPROVAL, and after any further
  calls \<open>get_order_status\<close> on its id returns a result without the error flag whose text
  carries exactly these four values.
\<close>

theorem order_status_reports_creation:
  "(oid \<notin> order_id ` set orders \<longrightarrow>
      get_order_status oid orders = error_result (''Order '' @ oid @ '' not found.'')) \<and>
   (\<forall>r placed.
      place_order fmt mn dose qty pid (ledger_after fmt before []) = Inr (r, placed) \<and> \<not> isError r \<longrightarrow>
      (\<exists>med ord.
         found_med mn = Some med \<and>
         placed = ledger_after fmt before [] @ [ord] \<and>
         order_id ord = ''ORD-'' @ str_nat (length (ledger_after fmt before []) + 1001) \<and>
         medicine ord = name med \<and> dosage ord = dose \<and> quantity ord = qty \<and>
         status ord = ''PENDING_PHYSICIAN_APPROVAL'' \<and>
         get_order_status (order_id ord) (ledger_after fmt later placed)
           = ok_result (''Order '' @ order_id ord @ '': '' @ name med @ '' '' @ dose
               @ '' x'' @ str_int qty @ '' - '' @ ''PENDING_PHYSICIAN_APPROVAL'')))"
proof (intro conjI allI impI)
  assume "oid \<notin> order_id ` set orders"
  then show "get_order_status oid orders = error_result (''Order '' @ oid @ '' not found.'')"
    by (rule get_order_status_missing)
next
  fix r placed
  let ?L0 = "ledger_after fmt before []"
  assume a: "place_order fmt mn dose qty pid ?L0 = Inr (r, placed) \<and> \<not> isError r"
  then have p: "place_order fmt mn dose qty pid ?L0 = Inr (r, placed)" and ne: "\<not> isError r"
    by simp_all
  from place_order_returns[OF p] ne obtain med where
    f: "found_med mn = Some med" and pl: "placed = ?L0 @ [new_order med dose qty pid ?L0]"
    by auto
  let ?ord = "new_order med dose qty pid ?L0"
  have ids0: "map order_id ?L0 = map (\<lambda>i. ''ORD-'' @ str_nat (1001 + i)) [0..<length ?L0]"
    by (rule ledger_after_ids) simp
  have idp: "map order_id placed = map (\<lambda>i. ''ORD-'' @ str_nat (1001 + i)) [0..<length placed]"
    unfolding pl using ids0 by (simp add: new_order_def add.commute)
  have "map order_id (ledger_after fmt later placed)
      = map (\<lambda>i. ''ORD-'' @ str_nat (1001 + i)) [0..<length (ledger_after fmt later placed)]"
    using idp by (rule ledger_after_ids)
  then have dist: "distinct (map order_id (ledger_after fmt later placed))"
    using order_ids_distinct by simp
  obtain more where "ledger_after fmt later placed = placed @ more"
    using ledger_after_extends by blast
  with pl have mem: "?ord \<in> set (ledger_after fmt later placed)" by simp
  have g: "get_order_status (order_id ?ord) (ledger_after fmt later placed)
      = ok_result (''Order '' @ order_id ?ord @ '': '' @ medicine ?ord @ '' '' @ dosage ?ord
         @ '' x'' @ str_int (quantity ?ord) @ '' - '' @ status ?ord)"
    using dist mem by (rule get_order_status_present)
  have fields: "order_id ?ord = ''ORD-'' @ str_nat (length ?L0 + 1001)"
    "medicine ?ord = name med" "dosage ?ord = dose" "quantity ?ord = qty"
    "status ?ord = ''PENDING_PHYSICIAN_APPROVAL''"
    by (simp_all add: new_order_def)
  show "\<exists>med ord.
         found_med mn = Some med \<and>
         placed = ?L0 @ [ord] \<and>
         order_id ord = ''ORD-'' @ str_nat (length ?L0 + 1001) \<and>
         medicine ord = name med \<and> dosage ord = dose \<and> quantity ord = qty \<and>
         status ord = ''PENDING_PHYSICIAN_APPROVAL'' \<and>
         get_order_status (order_id ord) (ledger_after fmt later placed)
           = ok_result (''Order '' @ order_id ord @ '': '' @ name med @ '' '' @ dose
               @ '' x'' @ str_int qty @ '' - '' @ ''PENDING_PHYSICIAN_APPROVAL'')"
  proof (intro exI[of _ med] exI[of _ ?ord] conjI)
    show "get_order_status (order_id ?ord) (ledger_after fmt later placed)
           = ok_result (''Order '' @ order_id ?ord @ '': '' @ name med @ '' '' @ dose
               @ '' x'' @ str_int qty @ '' - '' @ ''PENDING_PHYSICIAN_APPROVAL'')"
      using g by (simp only: fields(2-5))
  qed (rule f pl fields)+
qed

theorem order_status_reports_creation_witness:
  "get_order_status ''ORD-1001'' ([] :: order list)
     = error_result (''Order '' @ ''ORD-1001'' @ '' not found.'') \<and>
   (\<exists>med ord.
      found_med ''metformin'' = Some med \<and>
      ledger_after (\<lambda>p q. []) [] []
          @ [new_order \<lparr>name = ''Metformin'', dosages = [''500mg'', ''850mg'', ''1000mg''], price = 1250, category = ''Antidiabetic''\<rparr>
               ''500mg'' 30 ''P-1'' (ledger_after (\<lambda>p q. []) [] [])]
        = ledger_after (\<lambda>p q. []) [] [] @ [ord] \<and>
      order_id ord = ''ORD-'' @ str_nat (length (ledger_after (\<lambda>p q. []) [] []) + 1001) \<and>
      medicine ord = name med \<and> dosage ord = ''500mg'' \<and> quantity ord = 30 \<and>
      status ord = ''PENDING_PHYSICIAN_APPROVAL'' \<and>
      get_order_status (order_id ord)
          (ledger_after (\<lambda>p q. [])
             [(''place_order'', no_arguments\<lparr>arg_medicine_name := Some ''aspirin'', arg_dosage := Some ''81mg''\<rparr>)]
             (ledger_after (\<lambda>p q. []) [] []
                @ [new_order \<lparr>name = ''Metformin'', dosages = [''500mg'', ''850mg'', ''1000mg''], price = 1250, category = ''Antidiabetic''\<rparr>
                     ''500mg'' 30 ''P-1'' (ledger_after (\<lambda>p q. []) [] [])]))
        = ok_result (''Order '' @ order_id ord @ '': '' @ name med @ '' '' @ ''500mg''
            @ '' x'' @ str_int 30 @ '' - '' @ ''PENDING_PHYSICIAN_APPROVAL''))"
proof -
  let ?F = "\<lambda>(p::nat) (q::int). ([]::string)"
  let ?M = "\<lparr>name = ''Metformin'', dosages = [''500mg'', ''850mg'', ''1000mg''], price = 1250, category = ''Antidiabetic''\<rparr>"
  let ?later = "[(''place_order'', no_arguments\<lparr>arg_medicine_name := Some ''aspirin'', arg_dosage := Some ''81mg''\<rparr>)]"
  let ?L0 = "ledger_after ?F [] []"
  let ?placed = "?L0 @ [new_order ?M ''500mg'' 30 ''P-1'' ?L0]"
  note t = order_status_reports_creation[of "''ORD-1001''" "[]" ?F "''metformin''" "''500mg''" 30
             "''P-1''" "[]" ?later]
  have m: "''ORD-1001'' \<notin> order_id ` set ([] :: order list)" by simp
  have f: "found_med ''metformin'' = Some ?M" by code_simp
  have d: "''500mg'' \<in> set (dosages ?M)" by simp
  have q: "float_of_int_ok 30" by code_simp
  from place_order_success[OF f d q, of ?F "''P-1''" ?L0] obtain r where
    p: "place_order ?F ''metformin'' ''500mg'' 30 ''P-1'' ?L0 = Inr (r, ?placed)"
    and ne: "\<not> isError r"
    by (elim exE conjE)
  from t have "''ORD-1001'' \<notin> order_id ` set ([] :: order list) \<longrightarrow>
      get_order_status ''ORD-1001'' ([] :: order list)
        = error_result (''Order '' @ ''ORD-1001'' @ '' not found.'')"
    by (rule conjunct1)
  then have 1: "get_order_status ''ORD-1001'' ([] :: order list)
        = error_result (''Order '' @ ''ORD-1001'' @ '' not found.'')"
    using m by (rule mp)
  have 2: "\<exists>med ord.
         found_med ''metformin'' = Some med \<and>
         ?placed = ?L0 @ [ord] \<and>
         order_id ord = ''ORD-'' @ str_nat (length ?L0 + 1001) \<and>
         medicine ord = name med \<and> dosage ord = ''500mg'' \<and> quantity ord = 30 \<and>
         status ord = ''PENDING_PHYSICIAN_APPROVAL'' \<and>
         get_order_status (order_id ord) (ledger_after ?F ?later ?placed)
           = ok_result (''Order '' @ order_id ord @ '': '' @ name med @ '' '' @ ''500mg''
               @ '' x'' @ str_int 30 @ '' - '' @ ''PENDING_PHYSICIAN_APPROVAL'')"
    by (rule t[THEN conjunct2, THEN spec, THEN spec, THEN mp, OF conjI[OF p ne]])
  from 1 2 show ?thesis by (rule conjI)
qed

section \<open>The dispatcher\<close>

lemma handle_mcp_request_echo:
  "handle_mcp_request fmt body orders = Inr (env, orders') \<Longrightarrow>
   jsonrpc env = ''2.0'' \<and> resp_id env = req_id body"
  by (auto simp: handle_mcp_request_def Let_def split: if_splits sum.splits)

lemma handle_mcp_request_responds:
  "get_or (req_method body) [] \<noteq> ''tools/call'' \<Longrightarrow>
   \<exists>env. handle_mcp_request fmt body orders = Inr (env, orders) \<and>
         jsonrpc env = ''2.0'' \<and> resp_id env = req_id body"
  by (simp add: handle_mcp_request_def Let_def)

lemma handle_tool_call_raises_iff:
  "(\<exists>e. handle_tool_call fmt tool args orders = Inl e) \<longleftrightarrow>
     tool = ''place_order'' \<and>
     (\<exists>med. found_med (get_or (arg_medicine_name args) []) = Some med \<and>
            get_or (arg_dosage args) [] \<in> set (dosages med) \<and>
            \<not> float_of_int_ok (get_or (arg_quantity args) 30))"
proof (cases "tool = ''place_order''")
  case False
  with other_tools_keep_ledger[OF False, of fmt args orders] show ?thesis by auto
next
  case True
  then show ?thesis
    by (auto simp: handle_tool_call_def place_order_def Let_def split: option.splits if_splits)
qed

lemma handle_mcp_request_raises_iff:
  "(\<exists>e. handle_mcp_request fmt body orders = Inl e) \<longleftrightarrow>
     get_or (req_method body) [] = ''tools/call'' \<and>
     (\<exists>e. handle_tool_call fmt
            (get_or (call_name (get_or (req_params body) \<lparr>call_name = None, call_arguments = None\<rparr>)) [])
            (get_or (call_arguments (get_or (req_params body) \<lparr>call_name = None, call_arguments = None\<rparr>)) no_arguments)
            orders = Inl e)"
  by (auto simp: handle_mcp_request_def Let_def split: sum.splits)

lemma tools_call_overflow:
  assumes "found_med mn = Some med" "dose \<in> set (dosages med)" "\<not> float_of_int_ok qty"
  shows "handle_mcp_request fmt
     \<lparr>req_method = Some ''tools/call'',
      req_params = Some \<lparr>call_name = Some ''place_order'',
                         call_arguments = Some (no_arguments\<lparr>arg_medicine_name := Some mn,
                                                  arg_dosage := Some dose,
                                                  arg_quantity := Some qty\<rparr>)\<rparr>,
      req_id = rid\<rparr> orders
   = Inl OverflowError"
  using place_order_overflow[OF assms, of fmt "''UNKNOWN''" orders]
  by (simp add: handle_mcp_request_def handle_tool_call_def get_or_def no_arguments_def)

text \<open>
  C7 asks that every request with method \<open>initialize\<close>, \<open>tools/list\<close> or \<open>tools/call\<close> gets
  a response envelope that echoes its id. Whenever an envelope is produced it does echo the
  id (\<open>handle_mcp_request_echo\<close>), the first two methods always produce one
  (\<open>handle_mcp_request_responds\<close>), and the only requests that produce none are those of
  \<open>handle_mcp_request_raises_iff\<close> with \<open>handle_tool_call_raises_iff\<close>. But a \<open>tools/call\<close> of \<open>place_order\<close> with a resolvable
  name, a valid dosage and a quantity of magnitude \<open>2^1024 - 2^970\<close> or more raises
  \<open>OverflowError\<close> in \<open>found_med["price"] * quantity\<close>; nothing catches it, and no envelope
  is written. The theorem evaluates the dispatcher at such a request.
\<close>

theorem overflow_escapes_dispatcher:
  "handle_mcp_request fmt
     \<lparr>req_method = Some ''tools/call'',
      req_params = Some \<lparr>call_name = Some ''place_order'',
                         call_arguments = Some (no_arguments\<lparr>arg_medicine_name := Some ''lisinopril'',
                                                  arg_dosage := Some ''5mg'',
                                                  arg_quantity := Some (10 ^ 400)\<rparr>)\<rparr>,
      req_id = Some rid\<rparr> orders
   = Inl OverflowError"
proof -
  have f: "found_med ''lisinopril'' = Some \<lparr>name = ''Lisinopril'', dosages = [''5mg'', ''10mg'', ''20mg''], price = 1599, category = ''ACE Inhibitor''\<rparr>"
    by code_simp
  have d: "''5mg'' \<in> set (dosages \<lparr>name = ''Lisinopril'', dosages = [''5mg'', ''10mg'', ''20mg''], price = 1599, category = ''ACE Inhibitor''\<rparr>)"
    by simp
  have q: "\<not> float_of_int_ok (10 ^ 400)" by code_simp
  show ?thesis by (rule tools_call_overflow[OF f d q])
qed

text \<open>
  C8. For every request whose method is none of \<open>initialize\<close>, \<open>tools/list\<close> and
  \<open>tools/call\<close> (an absent method counts as the empty string), the dispatcher returns the
  envelope with \<open>jsonrpc\<close> 2.0, the id of the request, and as result the error object with
  code -32601 and message \<open>Unknown method: \<close> followed by the method; the ledger is
  unchanged.
\<close>

theorem unknown_method_error_object:
  assumes "get_or (req_method body) [] \<notin> {''initialize'', ''tools/list'', ''tools/call''}"
  shows "handle_mcp_request fmt body orders
           = Inr (\<lparr>jsonrpc = ''2.0'', resp_id = req_id body,
                   result = ErrorObject (- 32601) (''Unknown method: '' @ get_or (req_method body) [])\<rparr>,
                  orders)"
  using assms by (simp add: handle_mcp_request_def Let_def)

theorem unknown_method_error_object_witness:
  "handle_mcp_request (\<lambda>p q. [])
     \<lparr>req_method = Some ''resources/list'', req_params = None, req_id = Some (7 :: int)\<rparr> []
   = Inr (\<lparr>jsonrpc = ''2.0'', resp_id = Some 7,
           result = ErrorObject (- 32601) ''Unknown method: resources/list''\<rparr>, [])"
proof -
  let ?body = "\<lparr>req_method = Some ''resources/list'', req_params = None, req_id = Some (7 :: int)\<rparr>"
  have h: "get_or (req_method ?body) [] \<notin> {''initialize'', ''tools/list'', ''tools/call''}"
    by (simp add: get_or_def)
  have i: "req_id ?body = Some 7" by simp
  have m: "''Unknown method: '' @ get_or (req_method ?body) [] = ''Unknown method: resources/list''"
    by (simp add: get_or_def)
  have "handle_mcp_request (\<lambda>p q. []) ?body []
      = Inr (\<lparr>jsonrpc = ''2.0'', resp_id = req_id ?body,
              result = ErrorObject (- 32601) (''Unknown method: '' @ get_or (req_method ?body) [])\<rparr>, [])"
    by (rule unknown_method_error_object[OF h])
  then show ?thesis by (simp only: i m)
qed

text \<open>
  C10. The empty medicine name, which is what the dispatcher passes when a call omits
  \<open>medicine_name\<close>, resolves to the first catalog entry, Lisinopril, in
  \<open>check_availability\<close> and in \<open>place_order\<close> (which then fails on the empty default dosage,
  or places an order for Lisinopril when a valid dosage is given), because the empty string
  is a substring of every key; and \<open>search_medicines\<close> with the empty query returns every
  catalog entry.
\<close>

theorem empty_name_resolves_to_first_entry:
  "found_med [] = Some \<lparr>name = ''Lisinopril'', dosages = [''5mg'', ''10mg'', ''20mg''], price = 1599, category = ''ACE Inhibitor''\<rparr> \<and>
   handle_tool_call fmt ''check_availability'' no_arguments orders =
     Inr (ok_result ''**Lisinopril** is IN STOCK\<newline>Category: ACE Inhibitor\<newline>Dosages: 5mg, 10mg, 20mg\<newline>Price: $15.99 per unit'', orders) \<and>
   handle_tool_call fmt ''place_order'' no_arguments orders =
     Inr (error_result ''Order Failed:  not valid for Lisinopril.'', orders) \<and>
   handle_tool_call fmt ''place_order'' (no_arguments\<lparr>arg_dosage := Some ''5mg''\<rparr>) [] =
     Inr (ok_result (''ORDER PLACED\<newline>Order ID: ORD-1001\<newline>Medicine: Lisinopril 5mg\<newline>Quantity: 30 units\<newline>Total: $''
            @ fmt 1599 30 @ ''\<newline>Status: PENDING_PHYSICIAN_APPROVAL''),
          [\<lparr>order_id = ''ORD-1001'', medicine = ''Lisinopril'', dosage = ''5mg'', quantity = 30,
            patient_id = ''UNKNOWN'', unit_price = 1599, status = ''PENDING_PHYSICIAN_APPROVAL''\<rparr>]) \<and>
   search_matches [] = map snd MEDICINES \<and>
   handle_tool_call fmt ''search_medicines'' no_arguments orders =
     Inr (ok_result (''Found 10 medicine(s) matching '' @ quote @ quote @ '':\<newline>\<newline>''
            @ render_matches 1 (map snd MEDICINES)), orders)"
  by code_simp

end
